theory Spec2Isabelle
  imports Main
begin

section \<open>JavaScript values and the Express request and response\<close>

text \<open>
  A property that may be missing from a JavaScript object is an \<open>option\<close>: \<open>None\<close> is
  \<open>undefined\<close> (the middleware only ever tests such values for truthiness, so \<open>null\<close>
  is represented by \<open>None\<close> as well). The empty string, the number zero and \<open>false\<close>
  are falsy.
\<close>

definition truthy_str :: "string option \<Rightarrow> bool" where
  "truthy_str v = (case v of None \<Rightarrow> False | Some s \<Rightarrow> s \<noteq> [])"

definition truthy_num :: "int option \<Rightarrow> bool" where
  "truthy_num v = (case v of None \<Rightarrow> False | Some n \<Rightarrow> n \<noteq> 0)"

definition truthy_bool :: "bool option \<Rightarrow> bool" where
  "truthy_bool v = (case v of None \<Rightarrow> False | Some b \<Rightarrow> b)"

text \<open>\<open>a || d\<close> with a string default \<open>d\<close>.\<close>

definition or_str :: "string option \<Rightarrow> string \<Rightarrow> string" where
  "or_str v d = (case v of None \<Rightarrow> d | Some s \<Rightarrow> if s \<noteq> [] then s else d)"

text \<open>\<open>a || b\<close> on two possibly missing numbers.\<close>

definition or_int :: "int option \<Rightarrow> int option \<Rightarrow> int option" where
  "or_int a b = (if truthy_num a then a else b)"

text \<open>\<open>s.split(c)\<close> and \<open>xs[i]\<close> (which is \<open>undefined\<close> out of range).\<close>

fun split :: "char \<Rightarrow> string \<Rightarrow> string list" where
  "split c [] = [[]]"
| "split c (x # xs) =
     (if x = c then [] # split c xs
      else (case split c xs of [] \<Rightarrow> [[x]] | y # ys \<Rightarrow> (x # y) # ys))"

fun index :: "'a list \<Rightarrow> nat \<Rightarrow> 'a option" where
  "index [] i = None"
| "index (x # xs) 0 = Some x"
| "index (x # xs) (Suc i) = index xs i"

definition startsWith :: "string \<Rightarrow> string \<Rightarrow> bool" where
  "startsWith s p = (take (length p) s = p)"

fun join :: "string \<Rightarrow> string list \<Rightarrow> string" where
  "join sep [] = []"
| "join sep [x] = x"
| "join sep (x # y # ys) = x @ sep @ join sep (y # ys)"

text \<open>The accented letters of the messages, as their UTF-8 bytes.\<close>

definition a_acute :: string where "a_acute = [CHR 0xC3, CHR 0xA1]"
definition o_acute :: string where "o_acute = [CHR 0xC3, CHR 0xB3]"
definition n_tilde :: string where "n_tilde = [CHR 0xC3, CHR 0xB1]"

text \<open>JSON bodies; a property whose value is \<open>undefined\<close> is left out of the object.\<close>

datatype json = JStr string | JNum int | JBool bool | JObj "(string \<times> json) list"

fun field :: "string \<Rightarrow> json \<Rightarrow> json option" where
  "field k (JObj kvs) = map_of kvs k"
| "field k _ = None"

text \<open>A thrown \<open>Error\<close>.\<close>

record js_error =
  message :: string
  err_name :: string

text \<open>The payload of a token, as handed to the codec and as returned by it.\<close>

record claims =
  c_user_id :: "int option"
  c_id_user :: "int option"
  c_email :: "string option"
  c_role :: "string option"
  c_name :: "string option"
  c_surname :: "string option"
  c_loginMethod :: "string option"

definition no_claims :: claims where
  "no_claims = \<lparr>c_user_id = None, c_id_user = None, c_email = None, c_role = None,
     c_name = None, c_surname = None, c_loginMethod = None\<rparr>"

text \<open>
  \<open>config/jsonwebtoken\<close> is not among the sources: its four functions are parameters of
  the model. Verification either throws an \<open>Error\<close> or returns the decoded payload.
\<close>

record codec =
  createAccessToken :: "claims \<Rightarrow> string"
  createRefreshToken :: "claims \<Rightarrow> string"
  verifyAccessToken :: "string \<Rightarrow> js_error + claims"
  verifyRefreshToken :: "string \<Rightarrow> js_error + claims"

text \<open>\<open>req.user\<close>, the identity attached to the request.\<close>

record user_ctx =
  u_id_user :: "int option"
  u_email :: "string option"
  u_role :: string
  u_name :: "string option"
  u_surname :: "string option"
  u_loginMethod :: "string option"

record cookie_jar =
  access_token :: "string option"
  refresh_token :: "string option"

record req_body =
  b_token :: "string option"
  b_email :: "string option"
  b_password :: "string option"

record request =
  authorization :: "string option"
  query_token :: "string option"
  cookies :: "cookie_jar option"
  body :: "req_body option"
  user :: "user_ctx option"
  token :: "string option"
  tokenExpired :: "bool option"

record cookie_options =
  httpOnly :: "bool option"
  secure :: "bool option"
  sameSite :: "string option"
  maxAge :: "nat option"
  path :: "string option"

datatype cookie_op =
    SetCookie string string cookie_options
  | ClearCookie string cookie_options

record response =
  status :: nat
  headers :: "(string \<times> string) list"
  cookie_ops :: "cookie_op list"
  sent :: "json option"

definition fresh_response :: response where
  "fresh_response = \<lparr>status = 200, headers = [], cookie_ops = [], sent = None\<rparr>"

text \<open>\<open>res.status(n).json(b)\<close>, \<open>res.json(b)\<close>, \<open>res.set\<close>, \<open>res.cookie\<close>, \<open>res.clearCookie\<close>.\<close>

definition status_json :: "nat \<Rightarrow> json \<Rightarrow> response \<Rightarrow> response" where
  "status_json n b res = res\<lparr>status := n, sent := Some b\<rparr>"

definition send_json :: "json \<Rightarrow> response \<Rightarrow> response" where
  "send_json b res = res\<lparr>sent := Some b\<rparr>"

definition set_header :: "string \<Rightarrow> string \<Rightarrow> response \<Rightarrow> response" where
  "set_header k v res = res\<lparr>headers := headers res @ [(k, v)]\<rparr>"

definition cookie :: "string \<Rightarrow> string \<Rightarrow> cookie_options \<Rightarrow> response \<Rightarrow> response" where
  "cookie k v opts res = res\<lparr>cookie_ops := cookie_ops res @ [SetCookie k v opts]\<rparr>"

definition clearCookie :: "string \<Rightarrow> cookie_options \<Rightarrow> response \<Rightarrow> response" where
  "clearCookie k opts res = res\<lparr>cookie_ops := cookie_ops res @ [ClearCookie k opts]\<rparr>"

definition no_options :: cookie_options where
  "no_options = \<lparr>httpOnly = None, secure = None, sameSite = None, maxAge = None, path = None\<rparr>"

text \<open>
  A middleware either calls \<open>next()\<close>, handing the (mutated) request and response on, or
  answers and ends the pipeline.
\<close>

datatype outcome = Next request response | Done request response

type_synonym middleware = "request \<Rightarrow> response \<Rightarrow> outcome"

fun run :: "middleware list \<Rightarrow> middleware" where
  "run [] req res = Next req res"
| "run (m # ms) req res =
     (case m req res of Next req' res' \<Rightarrow> run ms req' res' | Done req' res' \<Rightarrow> Done req' res')"

section \<open>middlewares/authMiddleware\<close>

text \<open>The four probes of \<open>authenticate\<close>: the token found and \<open>tokenSource\<close>.\<close>

definition token_lookup :: "request \<Rightarrow> string option \<times> string" where
  "token_lookup req =
     (if truthy_str (authorization req) \<and>
         (case authorization req of None \<Rightarrow> False | Some h \<Rightarrow> startsWith h ''Bearer '')
      then (case authorization req of None \<Rightarrow> (None, ''header'')
            | Some h \<Rightarrow> (index (split CHR '' '' h) 1, ''header''))
      else if truthy_str (query_token req) then (query_token req, ''query'')
      else if (case cookies req of None \<Rightarrow> False | Some jar \<Rightarrow> truthy_str (access_token jar))
      then (case cookies req of None \<Rightarrow> (None, ''cookie'')
            | Some jar \<Rightarrow> (access_token jar, ''cookie''))
      else if (case body req of None \<Rightarrow> False | Some b \<Rightarrow> truthy_str (b_token b))
      then (case body req of None \<Rightarrow> (None, ''body'') | Some b \<Rightarrow> (b_token b, ''body''))
      else (None, ''none''))"

definition token_required :: json where
  "token_required = JObj [(''success'', JBool False),
     (''message'', JStr ''Token de acceso requerido''), (''code'', JStr ''TOKEN_REQUIRED'')]"

definition invalid_token_format :: json where
  "invalid_token_format = JObj [(''success'', JBool False),
     (''message'', JStr (''Token inv'' @ a_acute @ ''lido: falta identificaci'' @ o_acute
        @ ''n de usuario'')),
     (''code'', JStr ''INVALID_TOKEN_FORMAT'')]"

definition invalid_token :: "string option \<Rightarrow> js_error \<Rightarrow> json" where
  "invalid_token node_env error = JObj ([(''success'', JBool False),
     (''message'', JStr (''Token inv'' @ a_acute @ ''lido o mal formado'')),
     (''code'', JStr ''INVALID_TOKEN'')]
     @ (if node_env = Some ''development''
        then [(''debug'', JObj [(''error'', JStr (message error)),
                                (''name'', JStr (err_name error))])]
        else []))"

definition authenticate :: "string option \<Rightarrow> codec \<Rightarrow> middleware" where
  "authenticate node_env jwt req res =
     (case fst (token_lookup req) of
        None \<Rightarrow> Done req (status_json 401 token_required res)
      | Some t \<Rightarrow>
          if t = [] then Done req (status_json 401 token_required res)
          else (case verifyAccessToken jwt t of
             Inr decoded \<Rightarrow>
               (let userId = or_int (c_user_id decoded) (c_id_user decoded) in
                if \<not> truthy_num userId
                then Done req (status_json 401 invalid_token_format res)
                else Next (req\<lparr>user := Some \<lparr>u_id_user = userId, u_email = c_email decoded,
                                   u_role = or_str (c_role decoded) ''user'',
                                   u_name = Some (or_str (c_name decoded) ''''),
                                   u_surname = Some (or_str (c_surname decoded) ''''),
                                   u_loginMethod =
                                     Some (or_str (c_loginMethod decoded) ''traditional'')\<rparr>,
                                 token := Some t, tokenExpired := Some False\<rparr>) res)
           | Inl error \<Rightarrow>
               if message error = ''ACCESS_TOKEN_EXPIRED''
               then Next (req\<lparr>tokenExpired := Some True, token := Some t, user := None\<rparr>) res
               else Done req (status_json 401 (invalid_token node_env error) res)))"

definition not_authenticated :: json where
  "not_authenticated = JObj [(''success'', JBool False),
     (''message'', JStr ''No autenticado''), (''code'', JStr ''NOT_AUTHENTICATED'')]"

definition denied :: "string \<Rightarrow> string \<Rightarrow> json" where
  "denied msg code = JObj [(''success'', JBool False), (''message'', JStr msg),
     (''code'', JStr code)]"

definition requireAdmin :: middleware where
  "requireAdmin req res =
     (case user req of
        None \<Rightarrow> Done req (status_json 401 not_authenticated res)
      | Some u \<Rightarrow>
          if u_role u \<noteq> ''admin''
          then Done req (status_json 403
                 (denied ''Acceso denegado: solo administradores'' ''ADMIN_REQUIRED'') res)
          else Next req res)"

definition requireHR :: middleware where
  "requireHR req res =
     (case user req of
        None \<Rightarrow> Done req (status_json 401 not_authenticated res)
      | Some u \<Rightarrow>
          if u_role u \<noteq> ''hr''
          then Done req (status_json 403
                 (denied ''Acceso denegado: solo recursos humanos'' ''HR_REQUIRED'') res)
          else Next req res)"

definition requireMarketing :: middleware where
  "requireMarketing req res =
     (case user req of
        None \<Rightarrow> Done req (status_json 401 not_authenticated res)
      | Some u \<Rightarrow>
          if u_role u \<noteq> ''mkt''
          then Done req (status_json 403
                 (denied ''Acceso denegado: solo marketing'' ''MARKETING_REQUIRED'') res)
          else Next req res)"

definition isAuthenticated :: middleware where
  "isAuthenticated req res =
     (case user req of
        None \<Rightarrow> Done req (status_json 401 not_authenticated res)
      | Some u \<Rightarrow> Next req res)"

definition hasRole :: "string \<Rightarrow> middleware" where
  "hasRole role req res =
     (case user req of
        None \<Rightarrow> Done req (status_json 401 not_authenticated res)
      | Some u \<Rightarrow>
          if u_role u \<noteq> role
          then Done req (status_json 403
                 (denied (''Acceso denegado. Se requiere rol: '' @ role) ''ROLE_REQUIRED'') res)
          else Next req res)"

definition hasAnyRole :: "string list \<Rightarrow> middleware" where
  "hasAnyRole roles req res =
     (case user req of
        None \<Rightarrow> Done req (status_json 401 not_authenticated res)
      | Some u \<Rightarrow>
          if u_role u \<notin> set roles
          then Done req (status_json 403
                 (denied (''Acceso denegado. Se requiere uno de estos roles: ''
                            @ join '', '' roles) ''ROLE_REQUIRED'') res)
          else Next req res)"

section \<open>middlewares/checkRefreshCookie\<close>

definition session_expired :: json where
  "session_expired = JObj [(''success'', JBool False), (''code'', JStr ''SESSION_EXPIRED''),
     (''message'', JStr (''Sesi'' @ o_acute @ ''n expirada. Por favor, inicia sesi'' @ o_acute
        @ ''n nuevamente.''))]"

definition invalid_session :: json where
  "invalid_session = JObj [(''success'', JBool False), (''code'', JStr ''INVALID_SESSION''),
     (''message'', JStr (''Sesi'' @ o_acute @ ''n inv'' @ a_acute
        @ ''lida. Por favor, inicia sesi'' @ o_acute @ ''n nuevamente.''))]"

text \<open>The payload of the access token minted on renewal.\<close>

definition renewed_claims :: "claims \<Rightarrow> claims" where
  "renewed_claims refreshData = no_claims\<lparr>c_id_user := c_id_user refreshData,
     c_email := c_email refreshData, c_role := Some (or_str (c_role refreshData) ''user'')\<rparr>"

text \<open>\<open>req.cookies?.refresh_token\<close>\<close>

definition refresh_cookie :: "request \<Rightarrow> string option" where
  "refresh_cookie req = (case cookies req of None \<Rightarrow> None | Some jar \<Rightarrow> refresh_token jar)"

definition checkRefreshCookie :: "codec \<Rightarrow> middleware" where
  "checkRefreshCookie jwt req res =
     (if \<not> truthy_bool (tokenExpired req) then Next req res
      else
        (case refresh_cookie req of
           None \<Rightarrow> Done req (status_json 401 session_expired res)
         | Some refreshToken \<Rightarrow>
             if refreshToken = [] then Done req (status_json 401 session_expired res)
             else (case verifyRefreshToken jwt refreshToken of
                Inr refreshData \<Rightarrow>
                  (let newAccessToken = createAccessToken jwt (renewed_claims refreshData)
                   in Next (req\<lparr>token := Some newAccessToken,
                                 user := Some \<lparr>u_id_user = c_id_user refreshData,
                                   u_email = c_email refreshData,
                                   u_role = or_str (c_role refreshData) ''user'',
                                   u_name = None, u_surname = None, u_loginMethod = None\<rparr>,
                                 tokenExpired := Some False\<rparr>)
                           (set_header ''X-New-Access-Token'' newAccessToken res))
              | Inl error \<Rightarrow>
                  Done req (status_json 401 invalid_session
                              (clearCookie ''refresh_token'' no_options res)))))"

section \<open>models/authModel\<close>

text \<open>
  The rows of \<open>queries.login\<close> (\<open>SELECT user_id, role, email, password FROM users WHERE
  email = $1\<close>) over the users table, and the row left once the password is removed.
  The table is a list of rows and the query a filter over it, so a failing database
  connection is outside the model. \<open>bcrypt.compare\<close> is a parameter.
\<close>

record user_row =
  r_user_id :: int
  r_role :: string
  r_email :: string
  r_password :: string

record public_row =
  p_user_id :: int
  p_role :: string
  p_email :: string

definition login_query :: "user_row list \<Rightarrow> string \<Rightarrow> user_row list" where
  "login_query users e = filter (\<lambda>r. r_email r = e) users"

definition without_password :: "user_row \<Rightarrow> public_row" where
  "without_password r = \<lparr>p_user_id = r_user_id r, p_role = r_role r, p_email = r_email r\<rparr>"

definition Auth_login ::
  "(string \<Rightarrow> string \<Rightarrow> bool) \<Rightarrow> user_row list \<Rightarrow> string \<Rightarrow> string \<Rightarrow> public_row list" where
  "Auth_login compare users email password =
     (case login_query users email of
        [] \<Rightarrow> []
      | usr # _ \<Rightarrow>
          if \<not> compare password (r_password usr) then []
          else [without_password usr])"

text \<open>
  What the controller sees of the module: \<open>module.exports = { login, logout }\<close>. The module
  defines no \<open>getUserById\<close>, so that property of \<open>Auth\<close> is \<open>undefined\<close>.
\<close>

record auth_model =
  am_login :: "string \<Rightarrow> string \<Rightarrow> public_row list"
  am_getUserById :: "(int option \<Rightarrow> public_row list) option"

definition Auth :: "(string \<Rightarrow> string \<Rightarrow> bool) \<Rightarrow> user_row list \<Rightarrow> auth_model" where
  "Auth compare users = \<lparr>am_login = Auth_login compare users, am_getUserById = None\<rparr>"

section \<open>controllers/authController\<close>

text \<open>The options of the refresh cookie at issuance and at removal.\<close>

definition issue_options :: "string option \<Rightarrow> cookie_options" where
  "issue_options node_env = \<lparr>httpOnly = Some True, secure = Some (node_env = Some ''production''),
     sameSite = Some ''strict'', maxAge = Some (7 * 24 * 60 * 60 * 1000), path = Some ''/api''\<rparr>"

definition clear_options :: "string option \<Rightarrow> cookie_options" where
  "clear_options node_env = \<lparr>httpOnly = Some True, secure = Some (node_env = Some ''production''),
     sameSite = Some ''strict'', maxAge = None, path = Some ''/api''\<rparr>"

definition failure :: "string \<Rightarrow> json" where
  "failure msg = JObj [(''success'', JBool False), (''message'', JStr msg)]"

definition internal_error :: string where
  "internal_error = ''Error interno del servidor''"

definition login_internal_error :: "string option \<Rightarrow> string \<Rightarrow> json" where
  "login_internal_error node_env msg = JObj ([(''success'', JBool False),
     (''message'', JStr internal_error)]
     @ (if node_env = Some ''development'' then [(''error'', JStr msg)] else []))"

text \<open>
  The message of the \<open>TypeError\<close> that destructuring an \<open>undefined\<close> body throws
  (as V8 words it); it only shows in the answer under \<open>NODE_ENV=development\<close>.
\<close>

definition destructure_error :: string where
  "destructure_error = ''Cannot destructure property '' @ [CHR 0x27] @ ''email'' @ [CHR 0x27]
     @ '' of '' @ [CHR 0x27] @ ''req.body'' @ [CHR 0x27] @ '' as it is undefined.''"

text \<open>
  The user object of the answers. The rows carry no \<open>name\<close> and no \<open>surname\<close> column, so
  \<open>user.name\<close> and \<open>user.surname\<close> are \<open>undefined\<close> and \<open>user.name || ''\<close> is the
  empty string.
\<close>

definition row_name :: "public_row \<Rightarrow> string option" where
  "row_name usr = None"

definition row_surname :: "public_row \<Rightarrow> string option" where
  "row_surname usr = None"

definition access_claims :: "public_row \<Rightarrow> claims" where
  "access_claims usr = no_claims\<lparr>c_user_id := Some (p_user_id usr), c_role := Some (p_role usr),
     c_email := Some (p_email usr), c_name := Some (or_str (row_name usr) []),
     c_surname := Some (or_str (row_surname usr) [])\<rparr>"

definition refresh_claims :: "public_row \<Rightarrow> claims" where
  "refresh_claims usr = no_claims\<lparr>c_user_id := Some (p_user_id usr),
     c_email := Some (p_email usr), c_role := Some (p_role usr)\<rparr>"

definition user_json :: "public_row \<Rightarrow> json" where
  "user_json usr = JObj [(''user_id'', JNum (p_user_id usr)), (''email'', JStr (p_email usr)),
     (''role'', JStr (p_role usr)), (''name'', JStr (or_str (row_name usr) [])),
     (''surname'', JStr (or_str (row_surname usr) []))]"

definition session_json :: "string \<Rightarrow> public_row \<Rightarrow> json" where
  "session_json accessToken usr = JObj [(''success'', JBool True),
     (''accessToken'', JStr accessToken), (''expiresIn'', JNum 900), (''user'', user_json usr)]"

definition login :: "string option \<Rightarrow> codec \<Rightarrow> auth_model \<Rightarrow> middleware" where
  "login node_env jwt auth req res =
     (case body req of
        None \<Rightarrow> Done req (status_json 500 (login_internal_error node_env destructure_error) res)
      | Some b \<Rightarrow>
          if \<not> truthy_str (b_email b) \<or> \<not> truthy_str (b_password b)
          then Done req (status_json 400
                 (failure (''Email y contrase'' @ n_tilde @ ''a son requeridos'')) res)
          else (case am_login auth (or_str (b_email b) []) (or_str (b_password b) []) of
             [] \<Rightarrow> Done req (status_json 401
                     (failure (''Credenciales inv'' @ a_acute @ ''lidas'')) res)
           | usr # _ \<Rightarrow>
               (let accessToken = createAccessToken jwt (access_claims usr);
                    refreshToken = createRefreshToken jwt (refresh_claims usr)
                in Done req (status_json 200 (session_json accessToken usr)
                     (cookie ''refresh_token'' refreshToken (issue_options node_env) res)))))"

definition refresh_failure :: "string \<Rightarrow> string \<Rightarrow> json" where
  "refresh_failure msg code = JObj [(''success'', JBool False), (''message'', JStr msg),
     (''code'', JStr code)]"

definition refreshToken :: "string option \<Rightarrow> codec \<Rightarrow> auth_model \<Rightarrow> middleware" where
  "refreshToken node_env jwt auth req res =
     (case cookies req of
        None \<Rightarrow> Done req (status_json 500 (failure internal_error) res)
      | Some jar \<Rightarrow>
          if \<not> truthy_str (refresh_token jar)
          then Done req (status_json 401
                 (refresh_failure ''Refresh token requerido'' ''REFRESH_TOKEN_REQUIRED'') res)
          else (case verifyRefreshToken jwt (or_str (refresh_token jar) []) of
             Inl error \<Rightarrow>
               if message error = ''REFRESH_TOKEN_EXPIRED'' \<or> message error = ''Token expirado''
               then Done req (status_json 401
                      (refresh_failure (''Sesi'' @ o_acute @ ''n expirada. Por favor inicie sesi''
                          @ o_acute @ ''n nuevamente.'') ''SESSION_EXPIRED'')
                      (clearCookie ''refresh_token'' (clear_options node_env) res))
               else Done req (status_json 401
                      (refresh_failure (''Refresh token inv'' @ a_acute @ ''lido'')
                         ''INVALID_REFRESH_TOKEN'') res)
           | Inr decoded \<Rightarrow>
               (case am_getUserById auth of
                  None \<Rightarrow> Done req (status_json 500 (failure internal_error) res)
                | Some getUserById \<Rightarrow>
                    (case getUserById (c_user_id decoded) of
                       [] \<Rightarrow> Done req (status_json 401
                               (refresh_failure ''Usuario no encontrado'' ''USER_NOT_FOUND'')
                               (clearCookie ''refresh_token'' (clear_options node_env) res))
                     | usr # _ \<Rightarrow>
                         (let newAccessToken = createAccessToken jwt (access_claims usr);
                              newRefreshToken = createRefreshToken jwt (refresh_claims usr)
                          in Done req (send_json (session_json newAccessToken usr)
                               (cookie ''refresh_token'' newRefreshToken
                                  (issue_options node_env) res)))))))"

definition logout :: "string option \<Rightarrow> middleware" where
  "logout node_env req res =
     Done req (send_json (JObj [(''success'', JBool True),
                  (''message'', JStr (''Sesi'' @ o_acute @ ''n cerrada exitosamente.''))])
               (clearCookie ''refresh_token'' (clear_options node_env) res))"

section \<open>routes/authRoutes\<close>

text \<open>
  \<open>router.post('/refresh', authController.refreshToken)\<close> and
  \<open>router.post('/logout', authMiddleware.authenticate, authController.logout)\<close>.
\<close>

definition route_refresh ::
  "string option \<Rightarrow> codec \<Rightarrow> (string \<Rightarrow> string \<Rightarrow> bool) \<Rightarrow> user_row list \<Rightarrow> middleware" where
  "route_refresh node_env jwt compare users =
     run [refreshToken node_env jwt (Auth compare users)]"

definition route_logout :: "string option \<Rightarrow> codec \<Rightarrow> middleware" where
  "route_logout node_env jwt = run [authenticate node_env jwt, logout node_env]"

text \<open>
  A protected route as the middleware's documentation mounts it: \<open>authenticate\<close>, then
  \<open>checkRefreshCookie\<close>, then the gates and the handler of the route.
\<close>

definition protected :: "string option \<Rightarrow> codec \<Rightarrow> middleware list \<Rightarrow> middleware" where
  "protected node_env jwt handlers =
     run (authenticate node_env jwt # checkRefreshCookie jwt # handlers)"

section \<open>Reading an outcome\<close>

fun passed :: "outcome \<Rightarrow> bool" where
  "passed (Next req res) = True"
| "passed (Done req res) = False"

fun out_request :: "outcome \<Rightarrow> request" where
  "out_request (Next req res) = req"
| "out_request (Done req res) = req"

fun out_response :: "outcome \<Rightarrow> response" where
  "out_response (Next req res) = res"
| "out_response (Done req res) = res"

text \<open>The pipeline was ended with HTTP status \<open>n\<close> and a body whose \<open>code\<close> is \<open>c\<close>.\<close>

definition rejected :: "nat \<Rightarrow> string \<Rightarrow> outcome \<Rightarrow> bool" where
  "rejected n c out = (\<not> passed out \<and> status (out_response out) = n \<and>
     (case sent (out_response out) of None \<Rightarrow> False
      | Some b \<Rightarrow> field ''code'' b = Some (JStr c)))"

text \<open>
  Every gate for the roles \<open>admin\<close>, \<open>hr\<close> and \<open>mkt\<close> turns the request of an outcome
  away with 403.
\<close>

definition blocked :: "outcome \<Rightarrow> bool" where
  "blocked out =
     (rejected 403 ''ADMIN_REQUIRED'' (requireAdmin (out_request out) (out_response out)) \<and>
      rejected 403 ''HR_REQUIRED'' (requireHR (out_request out) (out_response out)) \<and>
      rejected 403 ''MARKETING_REQUIRED''
        (requireMarketing (out_request out) (out_response out)) \<and>
      rejected 403 ''ROLE_REQUIRED'' (hasRole ''admin'' (out_request out) (out_response out)) \<and>
      rejected 403 ''ROLE_REQUIRED'' (hasRole ''hr'' (out_request out) (out_response out)) \<and>
      rejected 403 ''ROLE_REQUIRED'' (hasRole ''mkt'' (out_request out) (out_response out)) \<and>
      rejected 403 ''ROLE_REQUIRED''
        (hasAnyRole [''admin'', ''hr'', ''mkt''] (out_request out) (out_response out)))"

section \<open>An example codec and example requests\<close>

text \<open>
  A small codec to run the middleware on: a token is a payload and a signature joined by a
  dot, the signature is the reversed payload after the secret of the token kind, and the
  payloads known to the decoder carry their claims and expiry time. A new token takes the
  local part of the e-mail address as its payload. The clock stands at 1000.
\<close>

definition example_sign :: "string \<Rightarrow> string \<Rightarrow> string" where
  "example_sign secret p = secret @ rev p"

definition ana_claims :: claims where
  "ana_claims = no_claims\<lparr>c_user_id := Some 7, c_email := Some ''ana@corp.es'',
     c_role := Some ''hr''\<rparr>"

definition guest_claims :: claims where
  "guest_claims = no_claims\<lparr>c_user_id := Some 9, c_id_user := Some 9,
     c_email := Some ''guest@corp.es''\<rparr>"

definition example_decode :: "string \<Rightarrow> (claims \<times> nat) option" where
  "example_decode p =
     (if p = ''ana'' then Some (ana_claims, 2000)
      else if p = ''ana-old'' then Some (ana_claims, 500)
      else if p = ''guest'' then Some (guest_claims, 2000)
      else None)"

definition example_verify :: "string \<Rightarrow> string \<Rightarrow> string \<Rightarrow> js_error + claims" where
  "example_verify secret expired t =
     (case split CHR ''.'' t of
        [p, s] \<Rightarrow>
          if s \<noteq> example_sign secret p
          then Inl \<lparr>message = ''invalid signature'', err_name = ''JsonWebTokenError''\<rparr>
          else (case example_decode p of
             None \<Rightarrow> Inl \<lparr>message = ''jwt malformed'', err_name = ''JsonWebTokenError''\<rparr>
           | Some (c, expires_at) \<Rightarrow>
               if expires_at \<le> 1000 then Inl \<lparr>message = expired, err_name = ''Error''\<rparr>
               else Inr c)
      | _ \<Rightarrow> Inl \<lparr>message = ''jwt malformed'', err_name = ''JsonWebTokenError''\<rparr>)"

definition example_create :: "string \<Rightarrow> claims \<Rightarrow> string" where
  "example_create secret c =
     (let p = takeWhile (\<lambda>x. x \<noteq> CHR ''@'') (or_str (c_email c) ''anonymous'')
      in p @ ''.'' @ example_sign secret p)"

definition example_jwt :: codec where
  "example_jwt = \<lparr>createAccessToken = example_create ''A'',
     createRefreshToken = example_create ''R'',
     verifyAccessToken = example_verify ''A'' ''ACCESS_TOKEN_EXPIRED'',
     verifyRefreshToken = example_verify ''R'' ''REFRESH_TOKEN_EXPIRED''\<rparr>"

definition anonymous :: request where
  "anonymous = \<lparr>authorization = None, query_token = None, cookies = None, body = None,
     user = None, token = None, tokenExpired = None\<rparr>"

definition bearer :: "string \<Rightarrow> request" where
  "bearer t = anonymous\<lparr>authorization := Some (''Bearer '' @ t)\<rparr>"

definition with_refresh :: "string \<Rightarrow> request \<Rightarrow> request" where
  "with_refresh t req = req\<lparr>cookies := Some \<lparr>access_token = None, refresh_token = Some t\<rparr>\<rparr>"

definition as_role :: "string \<Rightarrow> request" where
  "as_role r = anonymous\<lparr>user := Some \<lparr>u_id_user = Some 7, u_email = Some ''ana@corp.es'',
     u_role = r, u_name = Some [], u_surname = Some [], u_loginMethod = Some ''traditional''\<rparr>\<rparr>"

definition credentials :: "string \<Rightarrow> string \<Rightarrow> request" where
  "credentials e p = anonymous\<lparr>body := Some \<lparr>b_token = None, b_email = Some e,
     b_password = Some p\<rparr>\<rparr>"

definition example_users :: "user_row list" where
  "example_users = [\<lparr>r_user_id = 7, r_role = ''hr'', r_email = ''ana@corp.es'',
     r_password = ''hash(Secreta123)''\<rparr>]"

definition example_compare :: "string \<Rightarrow> string \<Rightarrow> bool" where
  "example_compare password hash = (hash = ''hash('' @ password @ '')'')"

text \<open>Rows for running the login on tables of more than one row.\<close>

definition luis_row :: user_row where
  "luis_row = \<lparr>r_user_id = 1, r_role = ''admin'', r_email = ''luis@corp.es'',
     r_password = ''hash(Maestra789)''\<rparr>"

definition ana_row :: user_row where
  "ana_row = \<lparr>r_user_id = 7, r_role = ''hr'', r_email = ''ana@corp.es'',
     r_password = ''hash(Secreta123)''\<rparr>"

definition ana_twin :: user_row where
  "ana_twin = \<lparr>r_user_id = 8, r_role = ''mkt'', r_email = ''ana@corp.es'',
     r_password = ''hash(Gemela456)''\<rparr>"

definition blank_row :: user_row where
  "blank_row = \<lparr>r_user_id = 9, r_role = ''user'', r_email = ''eva@corp.es'',
     r_password = ''hash()''\<rparr>"

section \<open>Facts about answers\<close>

lemma rejected_status_json:
  "rejected n c (Done req (status_json m b res)) = (m = n \<and> field ''code'' b = Some (JStr c))"
  by (auto simp: rejected_def status_json_def)

lemma code_denied: "field ''code'' (denied msg code) = Some (JStr code)"
  by (simp add: denied_def)

lemma code_not_authenticated:
  "field ''code'' not_authenticated = Some (JStr ''NOT_AUTHENTICATED'')"
  by (simp add: not_authenticated_def)

lemma code_invalid_token:
  "field ''code'' (invalid_token node_env error) = Some (JStr ''INVALID_TOKEN'')"
  by (simp add: invalid_token_def)

lemma code_token_required: "field ''code'' token_required = Some (JStr ''TOKEN_REQUIRED'')"
  by (simp add: token_required_def)

lemma code_invalid_token_format:
  "field ''code'' invalid_token_format = Some (JStr ''INVALID_TOKEN_FORMAT'')"
  by (simp add: invalid_token_format_def)

lemma or_str_falsy: "\<not> truthy_str v \<Longrightarrow> or_str v d = d"
  by (simp add: or_str_def truthy_str_def split: option.splits)

lemma or_str_truthy: "s \<noteq> [] \<Longrightarrow> or_str (Some s) d = s"
  by (simp add: or_str_def)

section \<open>The authenticator\<close>

lemma authenticate_no_token:
  "\<not> truthy_str (fst (token_lookup req)) \<Longrightarrow>
     authenticate node_env jwt req res = Done req (status_json 401 token_required res)"
  by (simp add: authenticate_def truthy_str_def split: option.splits)

lemma authenticate_throws:
  "fst (token_lookup req) = Some t \<Longrightarrow> t \<noteq> [] \<Longrightarrow> verifyAccessToken jwt t = Inl error \<Longrightarrow>
     authenticate node_env jwt req res =
       (if message error = ''ACCESS_TOKEN_EXPIRED''
        then Next (req\<lparr>tokenExpired := Some True, token := Some t, user := None\<rparr>) res
        else Done req (status_json 401 (invalid_token node_env error) res))"
  by (simp add: authenticate_def)

lemma authenticate_decodes:
  "fst (token_lookup req) = Some t \<Longrightarrow> t \<noteq> [] \<Longrightarrow> verifyAccessToken jwt t = Inr decoded \<Longrightarrow>
     authenticate node_env jwt req res =
       (if \<not> truthy_num (or_int (c_user_id decoded) (c_id_user decoded))
        then Done req (status_json 401 invalid_token_format res)
        else Next (req\<lparr>user := Some \<lparr>u_id_user = or_int (c_user_id decoded) (c_id_user decoded),
                          u_email = c_email decoded,
                          u_role = or_str (c_role decoded) ''user'',
                          u_name = Some (or_str (c_name decoded) []),
                          u_surname = Some (or_str (c_surname decoded) []),
                          u_loginMethod =
                            Some (or_str (c_loginMethod decoded) ''traditional'')\<rparr>,
                        token := Some t, tokenExpired := Some False\<rparr>) res)"
  by (simp add: authenticate_def Let_def)

lemma lookup_bearer_old: "fst (token_lookup (bearer ''ana-old.Adlo-ana'')) = Some ''ana-old.Adlo-ana''"
  by (simp add: token_lookup_def bearer_def anonymous_def truthy_str_def startsWith_def)

lemma lookup_bearer_forged: "fst (token_lookup (bearer ''ana.Aanb'')) = Some ''ana.Aanb''"
  by (simp add: token_lookup_def bearer_def anonymous_def truthy_str_def startsWith_def)

lemma lookup_bearer_guest: "fst (token_lookup (bearer ''guest.Atseug'')) = Some ''guest.Atseug''"
  by (simp add: token_lookup_def bearer_def anonymous_def truthy_str_def startsWith_def)

lemma example_verify_access:
  "verifyAccessToken example_jwt ''ana.Aana'' = Inr ana_claims"
  "verifyAccessToken example_jwt ''guest.Atseug'' = Inr guest_claims"
  "verifyAccessToken example_jwt ''ana-old.Adlo-ana'' =
     Inl \<lparr>message = ''ACCESS_TOKEN_EXPIRED'', err_name = ''Error''\<rparr>"
  "verifyAccessToken example_jwt ''ana.Aanb'' =
     Inl \<lparr>message = ''invalid signature'', err_name = ''JsonWebTokenError''\<rparr>"
  by (simp_all add: example_jwt_def example_verify_def example_sign_def example_decode_def)

lemma example_verify_refresh:
  "verifyRefreshToken example_jwt ''ana.Rana'' = Inr ana_claims"
  "verifyRefreshToken example_jwt ''guest.Rtseug'' = Inr guest_claims"
  "verifyRefreshToken example_jwt ''ana.Ranb'' =
     Inl \<lparr>message = ''invalid signature'', err_name = ''JsonWebTokenError''\<rparr>"
  by (simp_all add: example_jwt_def example_verify_def example_sign_def example_decode_def)

text \<open>
  C2. Let the authenticator have found the candidate token \<open>t\<close> and let its verification
  throw. If the error is the expiry error, the request is not turned away: it goes on with
  \<open>tokenExpired\<close> set, the raw token attached and no identity. For every other error (a
  forged signature, a token that does not parse) the answer is 401 INVALID_TOKEN, the
  request is left as it was, and a route that mounts the renewal middleware after the
  authenticator ends with that answer, so that no renewal is tried. The codec is not among
  the sources and is a parameter here; the witness runs a codec that checks signatures on
  a valid token with one signature byte changed.
\<close>

theorem expired_or_invalid:
  "fst (token_lookup req) = Some t \<and> t \<noteq> [] \<and> verifyAccessToken jwt t = Inl error \<longrightarrow>
     (message error = ''ACCESS_TOKEN_EXPIRED'' \<longrightarrow>
        authenticate node_env jwt req res =
          Next (req\<lparr>tokenExpired := Some True, token := Some t, user := None\<rparr>) res) \<and>
     (message error \<noteq> ''ACCESS_TOKEN_EXPIRED'' \<longrightarrow>
        rejected 401 ''INVALID_TOKEN'' (authenticate node_env jwt req res) \<and>
        authenticate node_env jwt req res =
          Done req (status_json 401 (invalid_token node_env error) res) \<and>
        protected node_env jwt handlers req res = authenticate node_env jwt req res)"
proof (intro impI, elim conjE)
  assume a: "fst (token_lookup req) = Some t" "t \<noteq> []" "verifyAccessToken jwt t = Inl error"
  note eq = authenticate_throws [OF a, of node_env res]
  show "(message error = ''ACCESS_TOKEN_EXPIRED'' \<longrightarrow>
        authenticate node_env jwt req res =
          Next (req\<lparr>tokenExpired := Some True, token := Some t, user := None\<rparr>) res) \<and>
     (message error \<noteq> ''ACCESS_TOKEN_EXPIRED'' \<longrightarrow>
        rejected 401 ''INVALID_TOKEN'' (authenticate node_env jwt req res) \<and>
        authenticate node_env jwt req res =
          Done req (status_json 401 (invalid_token node_env error) res) \<and>
        protected node_env jwt handlers req res = authenticate node_env jwt req res)"
    by (simp add: eq rejected_status_json code_invalid_token protected_def)
qed

theorem expired_or_invalid_witness:
  "authenticate None example_jwt (bearer ''ana-old.Adlo-ana'') fresh_response =
     Next ((bearer ''ana-old.Adlo-ana'')\<lparr>tokenExpired := Some True,
             token := Some ''ana-old.Adlo-ana'', user := None\<rparr>) fresh_response \<and>
   verifyAccessToken example_jwt ''ana.Aana'' = Inr ana_claims \<and>
   rejected 401 ''INVALID_TOKEN''
     (authenticate None example_jwt (bearer ''ana.Aanb'') fresh_response) \<and>
   protected None example_jwt [requireHR] (bearer ''ana.Aanb'') fresh_response =
     authenticate None example_jwt (bearer ''ana.Aanb'') fresh_response"
  using expired_or_invalid [where req = "bearer ''ana-old.Adlo-ana''"
      and t = "''ana-old.Adlo-ana''" and jwt = example_jwt
      and error = "\<lparr>message = ''ACCESS_TOKEN_EXPIRED'', err_name = ''Error''\<rparr>"
      and node_env = None and res = fresh_response and handlers = "[]"]
    expired_or_invalid [where req = "bearer ''ana.Aanb''" and t = "''ana.Aanb''"
      and jwt = example_jwt
      and error = "\<lparr>message = ''invalid signature'', err_name = ''JsonWebTokenError''\<rparr>"
      and node_env = None and res = fresh_response and handlers = "[requireHR]"]
  by (simp add: lookup_bearer_old lookup_bearer_forged example_verify_access
        rejected_status_json code_invalid_token)

text \<open>
  C3, at a request the code does not serve as the claim says. An Authorization header
  that starts with \<open>Bearer\<close> and a space selects the header, whatever follows: with two
  spaces before the token the second piece of the split is empty, the query parameter,
  the cookie and the body are not looked at, and the request is answered 401
  TOKEN_REQUIRED although its query string carries a token.
\<close>

theorem masked_query_token:
  "token_lookup (anonymous\<lparr>authorization := Some ''Bearer  abc'', query_token := Some ''abc''\<rparr>)
     = (Some [], ''header'') \<and>
   rejected 401 ''TOKEN_REQUIRED''
     (authenticate node_env jwt
        (anonymous\<lparr>authorization := Some ''Bearer  abc'', query_token := Some ''abc''\<rparr>)
        fresh_response)"
  by (simp add: authenticate_def token_lookup_def anonymous_def truthy_str_def startsWith_def
        rejected_status_json code_token_required)

section \<open>The role gates\<close>

lemma gate_unauthenticated:
  "user req = None \<Longrightarrow>
     requireAdmin req res = Done req (status_json 401 not_authenticated res) \<and>
     requireHR req res = Done req (status_json 401 not_authenticated res) \<and>
     requireMarketing req res = Done req (status_json 401 not_authenticated res) \<and>
     hasRole role req res = Done req (status_json 401 not_authenticated res) \<and>
     hasAnyRole roles req res = Done req (status_json 401 not_authenticated res)"
  by (simp add: requireAdmin_def requireHR_def requireMarketing_def hasRole_def hasAnyRole_def)

lemma gate_authenticated:
  "user req = Some u \<Longrightarrow>
     requireAdmin req res =
       (if u_role u = ''admin'' then Next req res
        else Done req (status_json 403
               (denied ''Acceso denegado: solo administradores'' ''ADMIN_REQUIRED'') res)) \<and>
     requireHR req res =
       (if u_role u = ''hr'' then Next req res
        else Done req (status_json 403
               (denied ''Acceso denegado: solo recursos humanos'' ''HR_REQUIRED'') res)) \<and>
     requireMarketing req res =
       (if u_role u = ''mkt'' then Next req res
        else Done req (status_json 403
               (denied ''Acceso denegado: solo marketing'' ''MARKETING_REQUIRED'') res)) \<and>
     hasRole role req res =
       (if u_role u = role then Next req res
        else Done req (status_json 403
               (denied (''Acceso denegado. Se requiere rol: '' @ role) ''ROLE_REQUIRED'') res)) \<and>
     hasAnyRole roles req res =
       (if u_role u \<in> set roles then Next req res
        else Done req (status_json 403
               (denied (''Acceso denegado. Se requiere uno de estos roles: ''
                          @ join '', '' roles) ''ROLE_REQUIRED'') res))"
  by (simp add: requireAdmin_def requireHR_def requireMarketing_def hasRole_def hasAnyRole_def)

text \<open>
  C8, as the code has it. A gate that finds no identity on the request answers 401
  NOT_AUTHENTICATED, whatever role it asks for. With an identity whose role does not match
  it answers 403: \<open>requireAdmin\<close>, \<open>requireHR\<close> and \<open>requireMarketing\<close> with their own
  codes ADMIN_REQUIRED, HR_REQUIRED and MARKETING_REQUIRED, the factories \<open>hasRole\<close> and
  \<open>hasAnyRole\<close> with the one code ROLE_REQUIRED for every role. With a matching role the
  gate calls \<open>next()\<close> with the request and the response as it received them; in every case
  the request is left as it was. An identity of role \<open>hr\<close> is therefore answered 403
  ADMIN_REQUIRED by \<open>requireAdmin\<close> and passes \<open>requireHR\<close>.
\<close>

theorem role_gate:
  "(user req = None \<longrightarrow>
      rejected 401 ''NOT_AUTHENTICATED'' (requireAdmin req res) \<and>
      rejected 401 ''NOT_AUTHENTICATED'' (requireHR req res) \<and>
      rejected 401 ''NOT_AUTHENTICATED'' (requireMarketing req res) \<and>
      rejected 401 ''NOT_AUTHENTICATED'' (hasRole role req res) \<and>
      rejected 401 ''NOT_AUTHENTICATED'' (hasAnyRole roles req res)) \<and>
   (\<forall>u. user req = Some u \<longrightarrow>
      (if u_role u = ''admin'' then requireAdmin req res = Next req res
       else rejected 403 ''ADMIN_REQUIRED'' (requireAdmin req res)) \<and>
      (if u_role u = ''hr'' then requireHR req res = Next req res
       else rejected 403 ''HR_REQUIRED'' (requireHR req res)) \<and>
      (if u_role u = ''mkt'' then requireMarketing req res = Next req res
       else rejected 403 ''MARKETING_REQUIRED'' (requireMarketing req res)) \<and>
      (if u_role u = role then hasRole role req res = Next req res
       else rejected 403 ''ROLE_REQUIRED'' (hasRole role req res)) \<and>
      (if u_role u \<in> set roles then hasAnyRole roles req res = Next req res
       else rejected 403 ''ROLE_REQUIRED'' (hasAnyRole roles req res))) \<and>
   out_request (requireAdmin req res) = req \<and>
   out_request (requireHR req res) = req \<and>
   out_request (requireMarketing req res) = req \<and>
   out_request (hasRole role req res) = req \<and>
   out_request (hasAnyRole roles req res) = req"
proof (cases "user req")
  case None
  from gate_unauthenticated [OF None, of res role roles] show ?thesis
    using None by (simp add: rejected_status_json code_not_authenticated)
next
  case (Some u)
  from gate_authenticated [OF Some, of res role roles] show ?thesis
    using Some by (simp add: rejected_status_json code_denied)
qed

theorem role_gate_witness:
  "rejected 401 ''NOT_AUTHENTICATED'' (requireAdmin anonymous fresh_response) \<and>
   rejected 403 ''ADMIN_REQUIRED'' (requireAdmin (as_role ''hr'') fresh_response) \<and>
   requireHR (as_role ''hr'') fresh_response = Next (as_role ''hr'') fresh_response \<and>
   rejected 403 ''ROLE_REQUIRED'' (hasRole ''admin'' (as_role ''hr'') fresh_response)"
  using role_gate [of anonymous fresh_response "''admin''" "[]"]
    role_gate [of "as_role ''hr''" fresh_response "''admin''" "[]"]
  by (simp add: anonymous_def as_role_def)

text \<open>
  The admin gate built by the factory answers an \<open>hr\<close> identity with ROLE_REQUIRED, not
  with ADMIN_REQUIRED.
\<close>

theorem role_gate_counterexample:
  "rejected 403 ''ROLE_REQUIRED'' (hasRole ''admin'' (as_role ''hr'') fresh_response) \<and>
   \<not> rejected 403 ''ADMIN_REQUIRED'' (hasRole ''admin'' (as_role ''hr'') fresh_response)"
  by (simp add: hasRole_def as_role_def anonymous_def rejected_def status_json_def denied_def
        fresh_response_def)

section \<open>The renewal middleware\<close>

lemma checkRefreshCookie_idle:
  "\<not> truthy_bool (tokenExpired req) \<Longrightarrow> checkRefreshCookie jwt req res = Next req res"
  by (simp add: checkRefreshCookie_def)

lemma checkRefreshCookie_absent:
  "truthy_bool (tokenExpired req) \<Longrightarrow> \<not> truthy_str (refresh_cookie req) \<Longrightarrow>
     checkRefreshCookie jwt req res = Done req (status_json 401 session_expired res)"
  by (simp add: checkRefreshCookie_def truthy_str_def split: option.splits)

lemma checkRefreshCookie_throws:
  "truthy_bool (tokenExpired req) \<Longrightarrow> refresh_cookie req = Some rt \<Longrightarrow> rt \<noteq> [] \<Longrightarrow>
   verifyRefreshToken jwt rt = Inl error \<Longrightarrow>
     checkRefreshCookie jwt req res =
       Done req (status_json 401 invalid_session (clearCookie ''refresh_token'' no_options res))"
  by (simp add: checkRefreshCookie_def)

lemma checkRefreshCookie_renews:
  "truthy_bool (tokenExpired req) \<Longrightarrow> refresh_cookie req = Some rt \<Longrightarrow> rt \<noteq> [] \<Longrightarrow>
   verifyRefreshToken jwt rt = Inr refreshData \<Longrightarrow>
     checkRefreshCookie jwt req res =
       Next (req\<lparr>token := Some (createAccessToken jwt (renewed_claims refreshData)),
                  user := Some \<lparr>u_id_user = c_id_user refreshData,
                            u_email = c_email refreshData,
                            u_role = or_str (c_role refreshData) ''user'',
                            u_name = None, u_surname = None, u_loginMethod = None\<rparr>,
                  tokenExpired := Some False\<rparr>)
            (set_header ''X-New-Access-Token''
               (createAccessToken jwt (renewed_claims refreshData)) res)"
  by (simp add: checkRefreshCookie_def Let_def)

lemma user_role_blocked:
  "map_option u_role (user req) = Some ''user'' \<Longrightarrow>
     rejected 403 ''ADMIN_REQUIRED'' (requireAdmin req res) \<and>
     rejected 403 ''HR_REQUIRED'' (requireHR req res) \<and>
     rejected 403 ''MARKETING_REQUIRED'' (requireMarketing req res) \<and>
     rejected 403 ''ROLE_REQUIRED'' (hasRole ''admin'' req res) \<and>
     rejected 403 ''ROLE_REQUIRED'' (hasRole ''hr'' req res) \<and>
     rejected 403 ''ROLE_REQUIRED'' (hasRole ''mkt'' req res) \<and>
     rejected 403 ''ROLE_REQUIRED'' (hasAnyRole [''admin'', ''hr'', ''mkt''] req res)"
  by (cases "user req")
    (auto simp: requireAdmin_def requireHR_def requireMarketing_def hasRole_def hasAnyRole_def
       rejected_status_json code_denied)

lemma renewal_request:
  "refresh_cookie (with_refresh t (anonymous\<lparr>tokenExpired := Some True\<rparr>)) = Some t"
  "truthy_bool (tokenExpired (with_refresh t (anonymous\<lparr>tokenExpired := Some True\<rparr>)))"
  by (simp_all add: refresh_cookie_def with_refresh_def anonymous_def truthy_bool_def)

text \<open>
  C10. A verified access token whose claims name a user but carry no role (none, or the
  empty string) lets the request pass the authenticator with an identity of role
  \<open>user\<close>; so does a verified refresh token without a role in the renewal middleware.
  The request continues, and every gate for \<open>admin\<close>, \<open>hr\<close> or \<open>mkt\<close> then answers 403.
\<close>

theorem default_role:
  "(fst (token_lookup req) = Some t \<and> t \<noteq> [] \<and> verifyAccessToken jwt t = Inr decoded \<and>
    truthy_num (or_int (c_user_id decoded) (c_id_user decoded)) \<and> \<not> truthy_str (c_role decoded)
    \<longrightarrow> passed (authenticate node_env jwt req res) \<and>
        map_option u_role (user (out_request (authenticate node_env jwt req res)))
          = Some ''user'' \<and>
        blocked (authenticate node_env jwt req res)) \<and>
   (truthy_bool (tokenExpired req) \<and> refresh_cookie req = Some rt \<and> rt \<noteq> [] \<and>
    verifyRefreshToken jwt rt = Inr refreshData \<and> \<not> truthy_str (c_role refreshData)
    \<longrightarrow> passed (checkRefreshCookie jwt req res) \<and>
        map_option u_role (user (out_request (checkRefreshCookie jwt req res)))
          = Some ''user'' \<and>
        blocked (checkRefreshCookie jwt req res))"
proof (intro conjI impI; elim conjE)
  assume a: "fst (token_lookup req) = Some t" "t \<noteq> []" "verifyAccessToken jwt t = Inr decoded"
    and id: "truthy_num (or_int (c_user_id decoded) (c_id_user decoded))"
    and norole: "\<not> truthy_str (c_role decoded)"
  note eq = authenticate_decodes [OF a, of node_env res]
  show "passed (authenticate node_env jwt req res)" using id by (simp add: eq)
  show r: "map_option u_role (user (out_request (authenticate node_env jwt req res)))
      = Some ''user''"
    using id norole by (simp add: eq or_str_falsy)
  show "blocked (authenticate node_env jwt req res)"
    unfolding blocked_def by (rule user_role_blocked [OF r])
next
  assume b: "truthy_bool (tokenExpired req)" "refresh_cookie req = Some rt" "rt \<noteq> []"
      "verifyRefreshToken jwt rt = Inr refreshData"
    and norole: "\<not> truthy_str (c_role refreshData)"
  note eq = checkRefreshCookie_renews [OF b, of res]
  show "passed (checkRefreshCookie jwt req res)" by (simp add: eq)
  show r: "map_option u_role (user (out_request (checkRefreshCookie jwt req res)))
      = Some ''user''"
    using norole by (simp add: eq or_str_falsy)
  show "blocked (checkRefreshCookie jwt req res)"
    unfolding blocked_def by (rule user_role_blocked [OF r])
qed

theorem default_role_witness:
  "passed (authenticate None example_jwt (bearer ''guest.Atseug'') fresh_response) \<and>
   map_option u_role (user (out_request
     (authenticate None example_jwt (bearer ''guest.Atseug'') fresh_response))) = Some ''user'' \<and>
   blocked (authenticate None example_jwt (bearer ''guest.Atseug'') fresh_response) \<and>
   passed (checkRefreshCookie example_jwt
     (with_refresh ''guest.Rtseug'' (anonymous\<lparr>tokenExpired := Some True\<rparr>)) fresh_response) \<and>
   blocked (checkRefreshCookie example_jwt
     (with_refresh ''guest.Rtseug'' (anonymous\<lparr>tokenExpired := Some True\<rparr>)) fresh_response)"
proof -
  have g: "truthy_num (or_int (c_user_id guest_claims) (c_id_user guest_claims))"
      "\<not> truthy_str (c_role guest_claims)"
    by (simp_all add: guest_claims_def no_claims_def or_int_def truthy_num_def truthy_str_def)
  show ?thesis
    using default_role [where req = "bearer ''guest.Atseug''" and t = "''guest.Atseug''"
        and jwt = example_jwt and decoded = guest_claims and node_env = None
        and res = fresh_response and rt = "[]" and refreshData = guest_claims]
      default_role [where
        req = "with_refresh ''guest.Rtseug'' (anonymous\<lparr>tokenExpired := Some True\<rparr>)"
        and t = "[]" and jwt = example_jwt and decoded = guest_claims and node_env = None
        and res = fresh_response and rt = "''guest.Rtseug''" and refreshData = guest_claims]
    by (simp add: lookup_bearer_guest example_verify_access example_verify_refresh g
          renewal_request)
qed

lemma lookup_renewal:
  "fst (token_lookup (with_refresh rt (bearer ''ana-old.Adlo-ana''))) = Some ''ana-old.Adlo-ana''"
  by (simp add: token_lookup_def with_refresh_def bearer_def anonymous_def truthy_str_def
        startsWith_def)

lemma example_renewed_token:
  "createAccessToken example_jwt (renewed_claims ana_claims) = ''ana.Aana''"
  by (simp add: renewed_claims_def ana_claims_def no_claims_def or_str_def example_jwt_def
        example_create_def example_sign_def)

lemma renewal_example:
  "protected None example_jwt [] (with_refresh ''ana.Rana'' (bearer ''ana-old.Adlo-ana''))
     fresh_response =
   Next ((with_refresh ''ana.Rana'' (bearer ''ana-old.Adlo-ana''))
           \<lparr>token := Some ''ana.Aana'',
             user := Some \<lparr>u_id_user = None, u_email = Some ''ana@corp.es'', u_role = ''hr'',
                       u_name = None, u_surname = None, u_loginMethod = None\<rparr>,
             tokenExpired := Some False\<rparr>)
        (fresh_response\<lparr>headers := [(''X-New-Access-Token'', ''ana.Aana'')]\<rparr>)"
proof -
  let ?req = "with_refresh ''ana.Rana'' (bearer ''ana-old.Adlo-ana'')"
  let ?exp = "?req\<lparr>tokenExpired := Some True, token := Some ''ana-old.Adlo-ana'', user := None\<rparr>"
  have a: "authenticate None example_jwt ?req fresh_response = Next ?exp fresh_response"
    by (simp add: authenticate_throws [OF lookup_renewal _ example_verify_access(3)])
  have c0: "truthy_bool (tokenExpired ?exp)" by (simp add: truthy_bool_def)
  have c1: "refresh_cookie ?exp = Some ''ana.Rana''"
    by (simp add: refresh_cookie_def with_refresh_def)
  have c: "checkRefreshCookie example_jwt ?exp fresh_response =
    Next (?req\<lparr>token := Some ''ana.Aana'',
             user := Some \<lparr>u_id_user = None, u_email = Some ''ana@corp.es'', u_role = ''hr'',
                       u_name = None, u_surname = None, u_loginMethod = None\<rparr>,
             tokenExpired := Some False\<rparr>)
        (fresh_response\<lparr>headers := [(''X-New-Access-Token'', ''ana.Aana'')]\<rparr>)"
    by (simp add: checkRefreshCookie_renews [OF c0 c1 _ example_verify_refresh(1)]
          example_renewed_token)
       (simp add: ana_claims_def no_claims_def or_str_def set_header_def fresh_response_def)
  show ?thesis by (simp add: protected_def a c)
qed

text \<open>
  C1, as the code has it. When the renewal middleware meets a request marked expired whose
  refresh cookie verifies, it mints one token, an access token, attaches it to the
  request, clears the expired mark, puts the token into the header
  \<open>X-New-Access-Token\<close> and calls \<open>next()\<close>. It mints no refresh token and sets no
  cookie: the cookie operations, the status and the body of the answer are those it
  found, and the request still holds the cookies it came with.
\<close>

theorem renewal_keeps_cookie:
  "truthy_bool (tokenExpired req) \<and> refresh_cookie req = Some rt \<and> rt \<noteq> [] \<and>
   verifyRefreshToken jwt rt = Inr refreshData \<longrightarrow>
     passed (checkRefreshCookie jwt req res) \<and>
     (\<exists>c. token (out_request (checkRefreshCookie jwt req res))
             = Some (createAccessToken jwt c) \<and>
          headers (out_response (checkRefreshCookie jwt req res))
             = headers res @ [(''X-New-Access-Token'', createAccessToken jwt c)]) \<and>
     tokenExpired (out_request (checkRefreshCookie jwt req res)) = Some False \<and>
     cookies (out_request (checkRefreshCookie jwt req res)) = cookies req \<and>
     cookie_ops (out_response (checkRefreshCookie jwt req res)) = cookie_ops res \<and>
     status (out_response (checkRefreshCookie jwt req res)) = status res \<and>
     sent (out_response (checkRefreshCookie jwt req res)) = sent res"
proof (intro impI, elim conjE)
  assume b: "truthy_bool (tokenExpired req)" "refresh_cookie req = Some rt" "rt \<noteq> []"
      "verifyRefreshToken jwt rt = Inr refreshData"
  note eq = checkRefreshCookie_renews [OF b, of res]
  have minted: "\<exists>c. token (out_request (checkRefreshCookie jwt req res))
             = Some (createAccessToken jwt c) \<and>
          headers (out_response (checkRefreshCookie jwt req res))
             = headers res @ [(''X-New-Access-Token'', createAccessToken jwt c)]"
    by (rule exI [of _ "renewed_claims refreshData"]) (simp add: eq set_header_def)
  show "passed (checkRefreshCookie jwt req res) \<and>
     (\<exists>c. token (out_request (checkRefreshCookie jwt req res))
             = Some (createAccessToken jwt c) \<and>
          headers (out_response (checkRefreshCookie jwt req res))
             = headers res @ [(''X-New-Access-Token'', createAccessToken jwt c)]) \<and>
     tokenExpired (out_request (checkRefreshCookie jwt req res)) = Some False \<and>
     cookies (out_request (checkRefreshCookie jwt req res)) = cookies req \<and>
     cookie_ops (out_response (checkRefreshCookie jwt req res)) = cookie_ops res \<and>
     status (out_response (checkRefreshCookie jwt req res)) = status res \<and>
     sent (out_response (checkRefreshCookie jwt req res)) = sent res"
    using minted by (simp add: eq set_header_def)
qed

theorem renewal_keeps_cookie_witness:
  "passed (checkRefreshCookie example_jwt
     (with_refresh ''ana.Rana'' (anonymous\<lparr>tokenExpired := Some True\<rparr>)) fresh_response) \<and>
   (\<exists>c. headers (out_response (checkRefreshCookie example_jwt
     (with_refresh ''ana.Rana'' (anonymous\<lparr>tokenExpired := Some True\<rparr>)) fresh_response)) =
     [(''X-New-Access-Token'', createAccessToken example_jwt c)]) \<and>
   cookie_ops (out_response (checkRefreshCookie example_jwt
     (with_refresh ''ana.Rana'' (anonymous\<lparr>tokenExpired := Some True\<rparr>)) fresh_response)) = [] \<and>
   refresh_cookie (out_request (checkRefreshCookie example_jwt
     (with_refresh ''ana.Rana'' (anonymous\<lparr>tokenExpired := Some True\<rparr>)) fresh_response))
     = Some ''ana.Rana''"
proof -
  let ?req = "with_refresh ''ana.Rana'' (anonymous\<lparr>tokenExpired := Some True\<rparr>)"
  have h: "truthy_bool (tokenExpired ?req) \<and> refresh_cookie ?req = Some ''ana.Rana'' \<and>
      ''ana.Rana'' \<noteq> [] \<and> verifyRefreshToken example_jwt ''ana.Rana'' = Inr ana_claims"
    by (simp add: renewal_request example_verify_refresh)
  note r = renewal_keeps_cookie [where req = ?req and rt = "''ana.Rana''" and jwt = example_jwt
      and refreshData = ana_claims and res = fresh_response, THEN mp, OF h]
  from r have 1: "passed (checkRefreshCookie example_jwt ?req fresh_response)" by simp
  from r have 2: "\<exists>c. headers (out_response (checkRefreshCookie example_jwt ?req fresh_response))
      = [(''X-New-Access-Token'', createAccessToken example_jwt c)]"
    by (auto simp: fresh_response_def)
  from r have 3: "cookie_ops (out_response (checkRefreshCookie example_jwt ?req fresh_response))
      = []"
    by (simp add: fresh_response_def)
  from r have "cookies (out_request (checkRefreshCookie example_jwt ?req fresh_response))
      = cookies ?req" by simp
  then have 4: "refresh_cookie (out_request (checkRefreshCookie example_jwt ?req fresh_response))
      = Some ''ana.Rana''"
    by (simp add: refresh_cookie_def with_refresh_def)
  from 1 2 3 4 show ?thesis by (intro conjI)
qed

text \<open>
  A protected request with an expired access token and a valid refresh cookie: it passes
  and carries the new access token in its header, but the answer sets no cookie.
\<close>

theorem renewal_counterexample:
  "passed (protected None example_jwt []
     (with_refresh ''ana.Rana'' (bearer ''ana-old.Adlo-ana'')) fresh_response) \<and>
   headers (out_response (protected None example_jwt []
     (with_refresh ''ana.Rana'' (bearer ''ana-old.Adlo-ana'')) fresh_response)) =
     [(''X-New-Access-Token'', ''ana.Aana'')] \<and>
   cookie_ops (out_response (protected None example_jwt []
     (with_refresh ''ana.Rana'' (bearer ''ana-old.Adlo-ana'')) fresh_response)) = []"
  unfolding renewal_example by (simp add: fresh_response_def)

section \<open>Login\<close>

lemma login_rejects:
  "body req = Some b \<Longrightarrow> b_email b = Some e \<Longrightarrow> e \<noteq> [] \<Longrightarrow> b_password b = Some p \<Longrightarrow>
   p \<noteq> [] \<Longrightarrow> am_login auth e p = [] \<Longrightarrow>
     login node_env jwt auth req res =
       Done req (status_json 401 (failure (''Credenciales inv'' @ a_acute @ ''lidas'')) res)"
  by (simp add: login_def truthy_str_def or_str_def)

lemma login_accepts:
  "body req = Some b \<Longrightarrow> b_email b = Some e \<Longrightarrow> e \<noteq> [] \<Longrightarrow> b_password b = Some p \<Longrightarrow>
   p \<noteq> [] \<Longrightarrow> am_login auth e p = usr # rest \<Longrightarrow>
     login node_env jwt auth req res =
       Done req (status_json 200 (session_json (createAccessToken jwt (access_claims usr)) usr)
         (cookie ''refresh_token'' (createRefreshToken jwt (refresh_claims usr))
            (issue_options node_env) res))"
  by (simp add: login_def truthy_str_def or_str_def Let_def)

lemma Auth_login_unknown: "login_query users e = [] \<Longrightarrow> am_login (Auth compare users) e p = []"
  by (simp add: Auth_def Auth_login_def)

lemma Auth_login_mismatch:
  "login_query users e = usr # rest \<Longrightarrow> \<not> compare p (r_password usr) \<Longrightarrow>
     am_login (Auth compare users) e p = []"
  by (simp add: Auth_def Auth_login_def)

lemma Auth_login_match:
  "login_query users e = usr # rest \<Longrightarrow> compare p (r_password usr) \<Longrightarrow>
     am_login (Auth compare users) e p = [without_password usr]"
  by (simp add: Auth_def Auth_login_def)

lemma credentials_body:
  "body (credentials e p) = Some \<lparr>b_token = None, b_email = Some e, b_password = Some p\<rparr>"
  by (simp add: credentials_def anonymous_def)

lemma example_queries:
  "login_query example_users ''eva@corp.es'' = []"
  "login_query example_users ''ana@corp.es'' = example_users"
  by (simp_all add: login_query_def example_users_def)

text \<open>
  C4, as the code has it. Two login attempts that each submit a non-empty e-mail address
  and a non-empty password, the first with
  an address the users table does not hold, the second with an address it holds and a
  password that \<open>bcrypt.compare\<close> rejects against the stored hash, get the same answer:
  status 401 and a body of \<open>success: false\<close> and the one message of invalid
  credentials, with no \<open>code\<close> property in either case.
\<close>

theorem login_failures_alike:
  "body req1 = Some b1 \<and> b_email b1 = Some e1 \<and> e1 \<noteq> [] \<and> b_password b1 = Some p1 \<and>
   p1 \<noteq> [] \<and>
   body req2 = Some b2 \<and> b_email b2 = Some e2 \<and> e2 \<noteq> [] \<and> b_password b2 = Some p2 \<and>
   p2 \<noteq> [] \<and>
   login_query users e1 = [] \<and>
   login_query users e2 = usr # rest \<and> \<not> compare p2 (r_password usr) \<longrightarrow>
     login node_env jwt (Auth compare users) req1 res =
       Done req1 (status_json 401 (failure (''Credenciales inv'' @ a_acute @ ''lidas'')) res) \<and>
     login node_env jwt (Auth compare users) req2 res =
       Done req2 (status_json 401 (failure (''Credenciales inv'' @ a_acute @ ''lidas'')) res) \<and>
     out_response (login node_env jwt (Auth compare users) req1 res) =
       out_response (login node_env jwt (Auth compare users) req2 res)"
proof (intro impI, elim conjE)
  assume a1: "body req1 = Some b1" "b_email b1 = Some e1" "e1 \<noteq> []" "b_password b1 = Some p1"
      "p1 \<noteq> []"
    and a2: "body req2 = Some b2" "b_email b2 = Some e2" "e2 \<noteq> []" "b_password b2 = Some p2"
      "p2 \<noteq> []"
    and u: "login_query users e1 = []"
    and m: "login_query users e2 = usr # rest" "\<not> compare p2 (r_password usr)"
  note r1 = login_rejects [OF a1 Auth_login_unknown [OF u, of compare p1], of node_env jwt res]
  note r2 = login_rejects [OF a2 Auth_login_mismatch [where compare = compare and p = p2, OF m],
      of node_env jwt res]
  show "login node_env jwt (Auth compare users) req1 res =
       Done req1 (status_json 401 (failure (''Credenciales inv'' @ a_acute @ ''lidas'')) res) \<and>
     login node_env jwt (Auth compare users) req2 res =
       Done req2 (status_json 401 (failure (''Credenciales inv'' @ a_acute @ ''lidas'')) res) \<and>
     out_response (login node_env jwt (Auth compare users) req1 res) =
       out_response (login node_env jwt (Auth compare users) req2 res)"
    by (simp add: r1 r2)
qed

theorem login_failures_alike_witness:
  "out_response (login None example_jwt (Auth example_compare example_users)
       (credentials ''eva@corp.es'' ''Secreta123'') fresh_response) =
   out_response (login None example_jwt (Auth example_compare example_users)
       (credentials ''ana@corp.es'' ''Secreta124'') fresh_response) \<and>
   out_response (login None example_jwt (Auth example_compare example_users)
       (credentials ''ana@corp.es'' ''Secreta124'') fresh_response) =
   status_json 401 (failure (''Credenciales inv'' @ a_acute @ ''lidas'')) fresh_response"
  using login_failures_alike [where ?req1.0 = "credentials ''eva@corp.es'' ''Secreta123''"
      and ?b1.0 = "\<lparr>b_token = None, b_email = Some ''eva@corp.es'',
                     b_password = Some ''Secreta123''\<rparr>"
      and ?e1.0 = "''eva@corp.es''" and ?p1.0 = "''Secreta123''"
      and ?req2.0 = "credentials ''ana@corp.es'' ''Secreta124''"
      and ?b2.0 = "\<lparr>b_token = None, b_email = Some ''ana@corp.es'',
                     b_password = Some ''Secreta124''\<rparr>"
      and ?e2.0 = "''ana@corp.es''" and ?p2.0 = "''Secreta124''"
      and users = example_users and usr = "hd example_users" and rest = "[]"
      and compare = example_compare and node_env = None and jwt = example_jwt
      and res = fresh_response]
  by (simp add: credentials_body example_queries) (simp add: example_users_def example_compare_def)

text \<open>
  At the wording of the claim the two answers differ when one of the attempts leaves the
  password empty: an unknown address with a password is answered 401, a known address with
  the empty password (which the stored hash does not accept) is answered 400 by the guard
  on the submitted fields.
\<close>

theorem login_failures_counterexample:
  "login_query example_users ''eva@corp.es'' = [] \<and>
   status (out_response (login None example_jwt (Auth example_compare example_users)
       (credentials ''eva@corp.es'' ''Secreta123'') fresh_response)) = 401 \<and>
   login_query example_users ''ana@corp.es'' = example_users \<and>
   Auth_login example_compare example_users ''ana@corp.es'' [] = [] \<and>
   status (out_response (login None example_jwt (Auth example_compare example_users)
       (credentials ''ana@corp.es'' []) fresh_response)) = 400"
proof -
  have 1: "status (out_response (login None example_jwt (Auth example_compare example_users)
       (credentials ''eva@corp.es'' ''Secreta123'') fresh_response)) = 401"
    by (simp add: login_rejects [OF credentials_body _ _ _ _
            Auth_login_unknown [OF example_queries(1)]] status_json_def)
  have 2: "Auth_login example_compare example_users ''ana@corp.es'' [] = []"
    by (simp add: Auth_login_def example_queries) (simp add: example_users_def example_compare_def)
  have 3: "status (out_response (login None example_jwt (Auth example_compare example_users)
       (credentials ''ana@corp.es'' []) fresh_response)) = 400"
    by (simp add: login_def credentials_body truthy_str_def status_json_def)
  from 1 2 3 show ?thesis by (simp add: example_queries)
qed

lemma login_query_first:
  "\<forall>r \<in> set before. r_email r \<noteq> e \<Longrightarrow> r_email usr = e \<Longrightarrow>
     login_query (before @ usr # after) e = usr # login_query after e"
  by (simp add: login_query_def)

lemma unique_address_first:
  assumes "distinct (map r_email users)" and "usr \<in> set users"
  shows "\<exists>before after. users = before @ usr # after \<and>
           (\<forall>r \<in> set before. r_email r \<noteq> r_email usr)"
proof -
  from assms(2) obtain before after where s: "users = before @ usr # after"
    by (auto simp: in_set_conv_decomp)
  with assms(1) have n: "r_email usr \<notin> r_email ` set before" by simp
  have "\<forall>r \<in> set before. r_email r \<noteq> r_email usr"
  proof
    fix r assume "r \<in> set before"
    then have "r_email r \<in> r_email ` set before" by (rule imageI)
    with n show "r_email r \<noteq> r_email usr" by metis
  qed
  with s show ?thesis by blast
qed

text \<open>
  C5, as the code has it. Let a login attempt submit a non-empty e-mail address and a
  non-empty password, and let the users table hold a row with that address, before which
  no other row has the address (as is the case for every row when addresses are unique),
  and whose hash \<open>bcrypt.compare\<close> accepts for the password. Then the attempt is
  answered 200. The access token is minted from claims whose \<open>user_id\<close>, \<open>role\<close> and
  \<open>email\<close> are those of the row; the body carries it with \<open>expiresIn: 900\<close> and the
  user object \<open>{user_id, email, role, name, surname}\<close>, whose name and surname are empty
  strings because the query selects neither, and which has no password. The refresh token
  goes into the cookie \<open>refresh_token\<close> with \<open>httpOnly\<close>, \<open>sameSite: 'strict'\<close>,
  \<open>maxAge\<close> of seven days in milliseconds, path \<open>/api\<close>, and \<open>secure\<close> in production
  only.
\<close>

theorem login_success:
  "body req = Some b \<and> b_email b = Some e \<and> e \<noteq> [] \<and> b_password b = Some p \<and> p \<noteq> [] \<and>
   users = before @ usr # after \<and> (\<forall>r \<in> set before. r_email r \<noteq> e) \<and> r_email usr = e \<and>
   compare p (r_password usr) \<longrightarrow>
     login node_env jwt (Auth compare users) req res =
       Done req (res\<lparr>cookie_ops := cookie_ops res @
           [SetCookie ''refresh_token''
              (createRefreshToken jwt (no_claims\<lparr>c_user_id := Some (r_user_id usr),
                 c_email := Some (r_email usr), c_role := Some (r_role usr)\<rparr>))
              \<lparr>httpOnly = Some True, secure = Some (node_env = Some ''production''),
                 sameSite = Some ''strict'', maxAge = Some (7 * 24 * 60 * 60 * 1000),
                 path = Some ''/api''\<rparr>],
         status := 200,
         sent := Some (JObj [(''success'', JBool True),
           (''accessToken'', JStr (createAccessToken jwt
              (no_claims\<lparr>c_user_id := Some (r_user_id usr), c_role := Some (r_role usr),
                 c_email := Some (r_email usr), c_name := Some [], c_surname := Some []\<rparr>))),
           (''expiresIn'', JNum 900),
           (''user'', JObj [(''user_id'', JNum (r_user_id usr)), (''email'', JStr (r_email usr)),
              (''role'', JStr (r_role usr)), (''name'', JStr []), (''surname'', JStr [])])])\<rparr>)"
proof (intro impI, elim conjE)
  assume a: "body req = Some b" "b_email b = Some e" "e \<noteq> []" "b_password b = Some p" "p \<noteq> []"
    and s: "users = before @ usr # after" "\<forall>r \<in> set before. r_email r \<noteq> e" "r_email usr = e"
    and c: "compare p (r_password usr)"
  from s have m: "login_query users e = usr # login_query after e"
    by (simp add: login_query_first)
  note r = login_accepts [OF a Auth_login_match [where compare = compare and p = p, OF m c],
      of node_env jwt res]
  show "login node_env jwt (Auth compare users) req res =
       Done req (res\<lparr>cookie_ops := cookie_ops res @
           [SetCookie ''refresh_token''
              (createRefreshToken jwt (no_claims\<lparr>c_user_id := Some (r_user_id usr),
                 c_email := Some (r_email usr), c_role := Some (r_role usr)\<rparr>))
              \<lparr>httpOnly = Some True, secure = Some (node_env = Some ''production''),
                 sameSite = Some ''strict'', maxAge = Some (7 * 24 * 60 * 60 * 1000),
                 path = Some ''/api''\<rparr>],
         status := 200,
         sent := Some (JObj [(''success'', JBool True),
           (''accessToken'', JStr (createAccessToken jwt
              (no_claims\<lparr>c_user_id := Some (r_user_id usr), c_role := Some (r_role usr),
                 c_email := Some (r_email usr), c_name := Some [], c_surname := Some []\<rparr>))),
           (''expiresIn'', JNum 900),
           (''user'', JObj [(''user_id'', JNum (r_user_id usr)), (''email'', JStr (r_email usr)),
              (''role'', JStr (r_role usr)), (''name'', JStr []), (''surname'', JStr [])])])\<rparr>)"
    by (simp add: r status_json_def cookie_def session_json_def user_json_def access_claims_def
          refresh_claims_def issue_options_def without_password_def row_name_def row_surname_def
          or_str_def)
qed

theorem login_success_witness:
  "login None example_jwt (Auth example_compare [luis_row, ana_row])
     (credentials ''ana@corp.es'' ''Secreta123'') fresh_response =
   Done (credentials ''ana@corp.es'' ''Secreta123'')
     \<lparr>status = 200, headers = [],
      cookie_ops = [SetCookie ''refresh_token'' ''ana.Rana''
        \<lparr>httpOnly = Some True, secure = Some False, sameSite = Some ''strict'',
           maxAge = Some 604800000, path = Some ''/api''\<rparr>],
      sent = Some (JObj [(''success'', JBool True), (''accessToken'', JStr ''ana.Aana''),
        (''expiresIn'', JNum 900),
        (''user'', JObj [(''user_id'', JNum 7), (''email'', JStr ''ana@corp.es''),
           (''role'', JStr ''hr''), (''name'', JStr []), (''surname'', JStr [])])])\<rparr>"
proof -
  have h: "body (credentials ''ana@corp.es'' ''Secreta123'') =
        Some \<lparr>b_token = None, b_email = Some ''ana@corp.es'',
               b_password = Some ''Secreta123''\<rparr> \<and>
      b_email \<lparr>b_token = None, b_email = Some ''ana@corp.es'',
               b_password = Some ''Secreta123''\<rparr> = Some ''ana@corp.es'' \<and>
      ''ana@corp.es'' \<noteq> [] \<and>
      b_password \<lparr>b_token = None, b_email = Some ''ana@corp.es'',
               b_password = Some ''Secreta123''\<rparr> = Some ''Secreta123'' \<and>
      ''Secreta123'' \<noteq> [] \<and>
      [luis_row, ana_row] = [luis_row] @ ana_row # [] \<and>
      (\<forall>r \<in> set [luis_row]. r_email r \<noteq> ''ana@corp.es'') \<and>
      r_email ana_row = ''ana@corp.es'' \<and>
      example_compare ''Secreta123'' (r_password ana_row)"
    by (simp add: credentials_body luis_row_def ana_row_def example_compare_def)
  note r = login_success [where node_env = None and jwt = example_jwt
      and compare = example_compare and res = fresh_response, THEN mp, OF h]
  show ?thesis
    by (simp add: r)
       (simp add: ana_row_def example_jwt_def example_create_def example_sign_def no_claims_def
          or_str_def fresh_response_def)
qed

text \<open>
  At the wording of the claim a pair that matches a stored record is not always signed in.
  With two rows of one address the controller takes the first row the query returns, so
  the pair matching the second row is answered 401; and a row whose hash accepts the empty
  password is answered 400 for that password by the guard on the submitted fields.
\<close>

theorem login_success_counterexample:
  "ana_row \<in> set [ana_twin, ana_row] \<and> r_email ana_row = ''ana@corp.es'' \<and>
   example_compare ''Secreta123'' (r_password ana_row) \<and>
   status (out_response (login None example_jwt (Auth example_compare [ana_twin, ana_row])
       (credentials ''ana@corp.es'' ''Secreta123'') fresh_response)) = 401 \<and>
   r_email blank_row = ''eva@corp.es'' \<and> example_compare [] (r_password blank_row) \<and>
   status (out_response (login None example_jwt (Auth example_compare [blank_row])
       (credentials ''eva@corp.es'' []) fresh_response)) = 400"
proof -
  have q: "login_query [ana_twin, ana_row] ''ana@corp.es'' = ana_twin # [ana_row]"
    by (simp add: login_query_def ana_twin_def ana_row_def)
  have n: "\<not> example_compare ''Secreta123'' (r_password ana_twin)"
    by (simp add: example_compare_def ana_twin_def)
  have 1: "status (out_response (login None example_jwt
       (Auth example_compare [ana_twin, ana_row])
       (credentials ''ana@corp.es'' ''Secreta123'') fresh_response)) = 401"
    by (simp add: login_rejects [OF credentials_body _ _ _ _
            Auth_login_mismatch [where compare = example_compare and p = "''Secreta123''",
              OF q n]] status_json_def)
  have 2: "status (out_response (login None example_jwt (Auth example_compare [blank_row])
       (credentials ''eva@corp.es'' []) fresh_response)) = 400"
    by (simp add: login_def credentials_body truthy_str_def status_json_def)
  from 1 2 show ?thesis
    by (simp add: ana_row_def blank_row_def example_compare_def)
qed

section \<open>Logout\<close>

lemma authenticate_passes:
  "authenticate node_env jwt req res = Next req' res' \<Longrightarrow> res' = res"
  by (auto simp: authenticate_def Let_def split: option.splits if_splits sum.splits)

lemma authenticate_rejects:
  "authenticate node_env jwt req res = Done req' res' \<Longrightarrow>
     req' = req \<and> status res' = 401 \<and> cookie_ops res' = cookie_ops res \<and>
     headers res' = headers res"
  by (auto simp: authenticate_def Let_def status_json_def
        split: option.splits if_splits sum.splits)

lemma lookup_bearer_ana: "fst (token_lookup (bearer ''ana.Aana'')) = Some ''ana.Aana''"
  by (simp add: token_lookup_def bearer_def anonymous_def truthy_str_def startsWith_def)

lemma passes_ana: "passed (authenticate None example_jwt (bearer ''ana.Aana'') fresh_response)"
  by (simp add: authenticate_decodes [OF lookup_bearer_ana _ example_verify_access(1)]
        ana_claims_def no_claims_def or_int_def truthy_num_def)

lemma fails_anonymous: "\<not> passed (authenticate None example_jwt anonymous fresh_response)"
  by (simp add: authenticate_def token_lookup_def anonymous_def truthy_str_def)

text \<open>
  C9, as the code has it. The controller \<open>logout\<close> clears the cookie \<open>refresh_token\<close>
  with the options of its issuance less \<open>maxAge\<close> (\<open>httpOnly\<close>, \<open>secure\<close> in
  production, \<open>sameSite: 'strict'\<close>, path \<open>/api\<close>) and answers success, whatever the
  request holds. The route mounts it behind \<open>authenticate\<close>: a logout request that the
  authenticator lets through (a valid access token, or an expired one) reaches the
  controller; one that it turns away (no token, a token that does not verify, claims
  without a user) is answered 401 by the authenticator and no cookie is cleared.
\<close>

theorem logout_behind_authenticator:
  "logout node_env req res =
     Done req (res\<lparr>cookie_ops := cookie_ops res @
                     [ClearCookie ''refresh_token'' ((issue_options node_env)\<lparr>maxAge := None\<rparr>)],
                   sent := Some (JObj [(''success'', JBool True),
                     (''message'', JStr (''Sesi'' @ o_acute @ ''n cerrada exitosamente.''))])\<rparr>) \<and>
   (passed (authenticate node_env jwt req res) \<longrightarrow>
      route_logout node_env jwt req res =
        logout node_env (out_request (authenticate node_env jwt req res)) res) \<and>
   (\<not> passed (authenticate node_env jwt req res) \<longrightarrow>
      route_logout node_env jwt req res = authenticate node_env jwt req res \<and>
      status (out_response (route_logout node_env jwt req res)) = 401 \<and>
      cookie_ops (out_response (route_logout node_env jwt req res)) = cookie_ops res)"
proof (intro conjI impI)
  show "logout node_env req res =
     Done req (res\<lparr>cookie_ops := cookie_ops res @
                     [ClearCookie ''refresh_token'' ((issue_options node_env)\<lparr>maxAge := None\<rparr>)],
                   sent := Some (JObj [(''success'', JBool True),
                     (''message'', JStr (''Sesi'' @ o_acute @ ''n cerrada exitosamente.''))])\<rparr>)"
    by (simp add: logout_def send_json_def clearCookie_def clear_options_def issue_options_def)
next
  assume p: "passed (authenticate node_env jwt req res)"
  then obtain req' res' where n: "authenticate node_env jwt req res = Next req' res'"
    by (cases "authenticate node_env jwt req res") simp_all
  from authenticate_passes [OF n] have "res' = res" .
  with n show "route_logout node_env jwt req res =
        logout node_env (out_request (authenticate node_env jwt req res)) res"
    by (simp add: route_logout_def logout_def)
next
  assume p: "\<not> passed (authenticate node_env jwt req res)"
  then obtain req' res' where d: "authenticate node_env jwt req res = Done req' res'"
    by (cases "authenticate node_env jwt req res") simp_all
  from d show "route_logout node_env jwt req res = authenticate node_env jwt req res"
    by (simp add: route_logout_def)
  from d authenticate_rejects [OF d]
  show "status (out_response (route_logout node_env jwt req res)) = 401"
    by (simp add: route_logout_def)
  from d authenticate_rejects [OF d]
  show "cookie_ops (out_response (route_logout node_env jwt req res)) = cookie_ops res"
    by (simp add: route_logout_def)
qed

theorem logout_behind_authenticator_witness:
  "cookie_ops (out_response (route_logout None example_jwt (bearer ''ana.Aana'') fresh_response))
     = [ClearCookie ''refresh_token'' \<lparr>httpOnly = Some True, secure = Some False,
          sameSite = Some ''strict'', maxAge = None, path = Some ''/api''\<rparr>] \<and>
   status (out_response (route_logout None example_jwt (bearer ''ana.Aana'') fresh_response))
     = 200 \<and>
   status (out_response (route_logout None example_jwt anonymous fresh_response)) = 401 \<and>
   cookie_ops (out_response (route_logout None example_jwt anonymous fresh_response)) = []"
proof -
  let ?req = "out_request (authenticate None example_jwt (bearer ''ana.Aana'') fresh_response)"
  have 1: "route_logout None example_jwt (bearer ''ana.Aana'') fresh_response =
      logout None ?req fresh_response"
    using logout_behind_authenticator [of None "bearer ''ana.Aana''" fresh_response example_jwt]
      passes_ana by blast
  have 2: "logout None ?req fresh_response =
      Done ?req (fresh_response\<lparr>cookie_ops := cookie_ops fresh_response @
                     [ClearCookie ''refresh_token'' ((issue_options None)\<lparr>maxAge := None\<rparr>)],
                   sent := Some (JObj [(''success'', JBool True),
                     (''message'', JStr (''Sesi'' @ o_acute @ ''n cerrada exitosamente.''))])\<rparr>)"
    using logout_behind_authenticator [of None ?req fresh_response example_jwt] by blast
  have 3: "status (out_response (route_logout None example_jwt anonymous fresh_response)) = 401 \<and>
      cookie_ops (out_response (route_logout None example_jwt anonymous fresh_response)) =
        cookie_ops fresh_response"
    using logout_behind_authenticator [of None anonymous fresh_response example_jwt]
      fails_anonymous by blast
  show ?thesis
    using 3 by (simp add: 1 2) (simp add: fresh_response_def issue_options_def)
qed

text \<open>A logout request without any token is answered 401 TOKEN_REQUIRED and clears nothing.\<close>

theorem logout_counterexample:
  "rejected 401 ''TOKEN_REQUIRED'' (route_logout None example_jwt anonymous fresh_response) \<and>
   cookie_ops (out_response (route_logout None example_jwt anonymous fresh_response)) = []"
  by (simp add: route_logout_def authenticate_def token_lookup_def anonymous_def truthy_str_def
        rejected_def token_required_def status_json_def fresh_response_def)

section \<open>The refresh endpoint\<close>

text \<open>
  C6, at requests the code does not serve as the claim says. The refresh endpoint answers
  a refresh cookie whose signature does not verify with 401 INVALID_REFRESH_TOKEN and
  clears no cookie: only its branch for an expired token and its branch for a missing
  user call \<open>clearCookie\<close>. That second branch is never reached: \<open>Auth.getUserById\<close> is
  \<open>undefined\<close>, the call throws, and a valid refresh token (here of a user whose row is
  gone) is answered 500 with the cookie left in place.
\<close>

theorem forged_refresh_cookie_kept:
  "rejected 401 ''INVALID_REFRESH_TOKEN''
     (route_refresh None example_jwt example_compare example_users
        (with_refresh ''ana.Ranb'' anonymous) fresh_response) \<and>
   cookie_ops (out_response
     (route_refresh None example_jwt example_compare example_users
        (with_refresh ''ana.Ranb'' anonymous) fresh_response)) = [] \<and>
   status (out_response
     (route_refresh None example_jwt example_compare []
        (with_refresh ''ana.Rana'' anonymous) fresh_response)) = 500 \<and>
   cookie_ops (out_response
     (route_refresh None example_jwt example_compare []
        (with_refresh ''ana.Rana'' anonymous) fresh_response)) = []"
  by (simp add: route_refresh_def refreshToken_def with_refresh_def anonymous_def truthy_str_def
        or_str_def example_verify_refresh Auth_def rejected_def refresh_failure_def
        status_json_def fresh_response_def)

section \<open>Renewal for an account that is gone\<close>

text \<open>
  C7, at a request the code does not serve as the claim says. Neither \<open>authenticate\<close>
  nor \<open>checkRefreshCookie\<close> reads the users table, so a protected route answers the same
  whatever the table holds. Take the table empty, the account of the address deleted: the
  lookup by its address finds no row and the model signs nobody in. The refresh cookie
  that the login had set for the account, the token minted from the claims of its row,
  still verifies to those claims; with it and an expired access token the protected
  request passes, an identity with the address of the deleted account is attached, and a
  new access token is minted and sent in the header, while no record of the account
  exists.
\<close>

theorem deleted_account_renewed:
  "login_query [] ''ana@corp.es'' = [] \<and>
   Auth_login example_compare [] ''ana@corp.es'' ''Secreta123'' = [] \<and>
   createRefreshToken example_jwt (refresh_claims (without_password ana_row)) = ''ana.Rana'' \<and>
   verifyRefreshToken example_jwt ''ana.Rana'' = Inr (refresh_claims (without_password ana_row)) \<and>
   passed (protected None example_jwt []
     (with_refresh ''ana.Rana'' (bearer ''ana-old.Adlo-ana'')) fresh_response) \<and>
   map_option u_email (user (out_request (protected None example_jwt []
     (with_refresh ''ana.Rana'' (bearer ''ana-old.Adlo-ana'')) fresh_response)))
     = Some (Some ''ana@corp.es'') \<and>
   token (out_request (protected None example_jwt []
     (with_refresh ''ana.Rana'' (bearer ''ana-old.Adlo-ana'')) fresh_response))
     = Some (createAccessToken example_jwt
         (renewed_claims (refresh_claims (without_password ana_row)))) \<and>
   headers (out_response (protected None example_jwt []
     (with_refresh ''ana.Rana'' (bearer ''ana-old.Adlo-ana'')) fresh_response))
     = [(''X-New-Access-Token'', createAccessToken example_jwt
          (renewed_claims (refresh_claims (without_password ana_row))))]"
proof -
  have q: "login_query [] ''ana@corp.es'' = []" by (simp add: login_query_def)
  have 1: "Auth_login example_compare [] ''ana@corp.es'' ''Secreta123'' = []"
    by (simp add: Auth_login_def q)
  have c: "refresh_claims (without_password ana_row) = ana_claims"
    by (simp add: refresh_claims_def without_password_def ana_row_def ana_claims_def)
  have 2: "createRefreshToken example_jwt ana_claims = ''ana.Rana''"
    by (simp add: ana_claims_def no_claims_def or_str_def example_jwt_def example_create_def
          example_sign_def)
  show ?thesis
    unfolding renewal_example c
    by (simp add: q 1 2 example_verify_refresh example_renewed_token fresh_response_def)
qed

end
